theory Spec2Isabelle
  imports Complex_Main
begin

section \<open>Correlation backtest (app.py): the embedding\<close>

text \<open>
  The script downloads two price columns, derives a 0/1 position column from a
  forward-looking guide return and a rolling correlation, and then computes three
  capital curves over the rows of the year 2024: the strategy, buy-and-hold and a
  monthly dollar-cost-averaging plan.

  Numbers. The script computes in float64. Here a float that is not NaN is a
  \<open>real\<close>, arithmetic is exact, and a column that may hold NaN is a list of
  \<open>real option\<close> with \<open>None\<close> for NaN. Infinities are not modelled: a float
  division by zero yields an infinity in the script and \<open>0\<close> in HOL, so every
  statement about the value of a quotient assumes positive prices and a positive
  initial capital, as the data model of the specification does.

  Frames. The rows of \<open>df\<close> (the 2024 window) are a list in index order; each row
  carries its index date, the target's close and the two signal inputs
  \<open>Guide_Return_Future\<close> and \<open>Corr\<close> computed upstream on the whole history.
\<close>

subsection \<open>Errors and dates\<close>

datatype error = IndexError

datatype date = Date (year: nat) (month: nat) (day: nat)

record row =
  idx :: date
  target :: real
  Guide_Return_Future :: "real option"
  Corr :: "real option"

subsection \<open>The pandas column operations that the script calls\<close>

text \<open>\<open>Series.shift(1)\<close>: every value moves one row down, the first row is NaN.\<close>

definition shift_s :: "real option list \<Rightarrow> real option list" where
  "shift_s xs = (case xs of [] \<Rightarrow> [] | _ # _ \<Rightarrow> None # butlast xs)"

text \<open>An arithmetic operation on two cells is NaN as soon as one cell is NaN.\<close>

definition lift2 :: "(real \<Rightarrow> real \<Rightarrow> real) \<Rightarrow> real option \<Rightarrow> real option \<Rightarrow> real option" where
  "lift2 f x y = (case x of None \<Rightarrow> None | Some a \<Rightarrow> (case y of None \<Rightarrow> None | Some b \<Rightarrow> Some (f a b)))"

text \<open>\<open>Series.diff()\<close>: the value minus the value one row above.\<close>

definition diff_s :: "real option list \<Rightarrow> real option list" where
  "diff_s xs = map (\<lambda>(x, y). lift2 (\<lambda>a b. a - b) x y) (zip xs (shift_s xs))"

text \<open>\<open>Series.pct_change()\<close>: the value over the value one row above, minus one.\<close>

definition pct_change :: "real option list \<Rightarrow> real option list" where
  "pct_change xs = map (\<lambda>(x, y). lift2 (\<lambda>a b. a / b - 1) x y) (zip xs (shift_s xs))"

text \<open>\<open>Series.abs()\<close>.\<close>

definition abs_s :: "real option list \<Rightarrow> real option list" where
  "abs_s xs = map (map_option abs) xs"

text \<open>\<open>Series.fillna(v)\<close>: NaN cells become \<open>v\<close>; the result holds no NaN.\<close>

definition fillna :: "real \<Rightarrow> real option list \<Rightarrow> real list" where
  "fillna v xs = map (\<lambda>x. case x of None \<Rightarrow> v | Some a \<Rightarrow> a) xs"

text \<open>A comparison with a NaN cell is false.\<close>

definition gt_s :: "real option \<Rightarrow> real \<Rightarrow> bool" where
  "gt_s x v = (case x of None \<Rightarrow> False | Some a \<Rightarrow> v < a)"

text \<open>\<open>Series.iloc[0]\<close> and \<open>Series.iloc[-1]\<close> raise on an empty column.\<close>

definition iloc_first :: "real list \<Rightarrow> error + real" where
  "iloc_first xs = (case xs of [] \<Rightarrow> Inl IndexError | x # _ \<Rightarrow> Inr x)"

definition iloc_last :: "real list \<Rightarrow> error + real" where
  "iloc_last xs = (if xs = [] then Inl IndexError else Inr (last xs))"

subsection \<open>Signal and trade columns\<close>

text \<open>
  \<^verbatim>\<open>df['Position'] = np.where((df['Guide_Return_Future'] > 0) & (df['Corr'] > 0.2), 1, 0)\<close>
\<close>

definition Position_of :: "real option \<Rightarrow> real option \<Rightarrow> int" where
  "Position_of g c = (if gt_s g 0 \<and> gt_s c (2 / 10) then 1 else 0)"

definition Position :: "row list \<Rightarrow> int list" where
  "Position df = map (\<lambda>r. Position_of (Guide_Return_Future r) (Corr r)) df"

text \<open>\<^verbatim>\<open>df['Trade'] = df['Position'].diff().abs().fillna(0)\<close>\<close>

definition Trade :: "int list \<Rightarrow> real list" where
  "Trade pos = fillna 0 (abs_s (diff_s (map (\<lambda>p. Some (real_of_int p)) pos)))"

text \<open>\<^verbatim>\<open>rets = df[target_ticker].pct_change().fillna(0).values\<close>\<close>

definition rets_of :: "real list \<Rightarrow> real list" where
  "rets_of prices = fillna 0 (pct_change (map Some prices))"

subsection \<open>The strategy loop\<close>

text \<open>
  \<^verbatim>\<open>
  for i in range(len(df)):
      if i > 0 and pos_vals[i-1] == 1:
          c_strat *= (1 + rets[i])
      if trade_vals[i] == 1:
          c_strat *= (1 - trading_fees)
      strat_path.append(c_strat)
  \<close>
  \<open>strat_step\<close> is one pass through the body, \<open>strat_loop\<close> the loop over the
  remaining indices with the running capital and the path built so far. The three
  arrays are columns of the same frame, so every index below \<open>len(df)\<close> is in range.
\<close>

definition strat_step :: "real list \<Rightarrow> int list \<Rightarrow> real list \<Rightarrow> real \<Rightarrow> nat \<Rightarrow> real \<Rightarrow> real" where
  "strat_step rets pos_vals trade_vals trading_fees i c_strat =
     (let c1 = (if 0 < i \<and> pos_vals ! (i - 1) = 1 then c_strat * (1 + rets ! i) else c_strat)
      in if trade_vals ! i = 1 then c1 * (1 - trading_fees) else c1)"

fun strat_loop :: "real list \<Rightarrow> int list \<Rightarrow> real list \<Rightarrow> real \<Rightarrow> nat list \<Rightarrow> real \<Rightarrow> real list \<Rightarrow> real list" where
  "strat_loop rets pos_vals trade_vals trading_fees [] c_strat strat_path = strat_path"
| "strat_loop rets pos_vals trade_vals trading_fees (i # is) c_strat strat_path =
     (let c' = strat_step rets pos_vals trade_vals trading_fees i c_strat
      in strat_loop rets pos_vals trade_vals trading_fees is c' (strat_path @ [c']))"

definition strat_path :: "nat \<Rightarrow> real list \<Rightarrow> int list \<Rightarrow> real list \<Rightarrow> real \<Rightarrow> real \<Rightarrow> real list" where
  "strat_path n rets pos_vals trade_vals trading_fees initial_cap =
     strat_loop rets pos_vals trade_vals trading_fees [0..<n] initial_cap []"

text \<open>The column \<open>df['Strategy']\<close> for a price column and a position column.\<close>

definition Strategy :: "real list \<Rightarrow> int list \<Rightarrow> real \<Rightarrow> real \<Rightarrow> real list" where
  "Strategy prices pos trading_fees initial_cap =
     strat_path (length prices) (rets_of prices) pos (Trade pos) trading_fees initial_cap"

text \<open>The running capital after the first \<open>k\<close> passes through the loop body.\<close>

definition strat_after :: "real list \<Rightarrow> int list \<Rightarrow> real list \<Rightarrow> real \<Rightarrow> real \<Rightarrow> nat \<Rightarrow> real" where
  "strat_after rets pos_vals trade_vals trading_fees initial_cap k =
     foldl (\<lambda>c i. strat_step rets pos_vals trade_vals trading_fees i c) initial_cap [0..<k]"

subsection \<open>Buy and hold\<close>

text \<open>\<^verbatim>\<open>df['BuyHold'] = (df[target_ticker] / df[target_ticker].iloc[0]) * initial_cap\<close>\<close>

definition BuyHold :: "real list \<Rightarrow> real \<Rightarrow> error + real list" where
  "BuyHold prices initial_cap =
     (case iloc_first prices of
        Inl e \<Rightarrow> Inl e
      | Inr p0 \<Rightarrow> Inr (map (\<lambda>p. (p / p0) * initial_cap) prices))"

subsection \<open>Monthly dollar-cost averaging\<close>

text \<open>
  \<^verbatim>\<open>
  monthly_budget = initial_cap / 12
  cash_spent = 0
  shares = 0
  for date, row in df.iterrows():
      if date == df[df.index.month == date.month].index[0] and cash_spent < initial_cap:
          shares += (monthly_budget * (1 - trading_fees)) / row[target_ticker]
          cash_spent += monthly_budget
      df.loc[date, 'DCA'] = (shares * row[target_ticker]) + (initial_cap - cash_spent)
  \<close>
  \<open>month_index0\<close> is \<open>df[df.index.month == m].index[0]\<close>: the date of the first row
  whose month number is \<open>m\<close>; on no such row the script raises, which is \<open>None\<close> here
  and cannot happen for a date taken from \<open>df\<close> itself (lemma
  \<open>month_index0_defined\<close>). The index dates of a frame are distinct, so
  \<open>df.loc[date, 'DCA']\<close> writes the cell of the current row.
\<close>

record dca_state =
  shares :: real
  cash_spent :: real

definition month_index0 :: "row list \<Rightarrow> nat \<Rightarrow> date option" where
  "month_index0 df m = map_option idx (find (\<lambda>r. month (idx r) = m) df)"

definition dca_buys :: "row list \<Rightarrow> real \<Rightarrow> dca_state \<Rightarrow> row \<Rightarrow> bool" where
  "dca_buys df initial_cap s r =
     (month_index0 df (month (idx r)) = Some (idx r) \<and> cash_spent s < initial_cap)"

definition dca_step :: "row list \<Rightarrow> real \<Rightarrow> real \<Rightarrow> dca_state \<Rightarrow> row \<Rightarrow> dca_state" where
  "dca_step df trading_fees initial_cap s r =
     (let monthly_budget = initial_cap / 12
      in if dca_buys df initial_cap s r
         then \<lparr>shares = shares s + (monthly_budget * (1 - trading_fees)) / target r,
               cash_spent = cash_spent s + monthly_budget\<rparr>
         else s)"

fun dca_loop :: "row list \<Rightarrow> real \<Rightarrow> real \<Rightarrow> row list \<Rightarrow> dca_state \<Rightarrow> real list \<Rightarrow> real list" where
  "dca_loop df trading_fees initial_cap [] s col = col"
| "dca_loop df trading_fees initial_cap (r # rs) s col =
     (let s' = dca_step df trading_fees initial_cap s r
      in dca_loop df trading_fees initial_cap rs s'
           (col @ [(shares s' * target r) + (initial_cap - cash_spent s')]))"

definition DCA :: "row list \<Rightarrow> real \<Rightarrow> real \<Rightarrow> real list" where
  "DCA df trading_fees initial_cap =
     dca_loop df trading_fees initial_cap df \<lparr>shares = 0, cash_spent = 0\<rparr> []"

text \<open>The loop variables after the first \<open>k\<close> rows have been processed.\<close>

definition dca_after :: "row list \<Rightarrow> real \<Rightarrow> real \<Rightarrow> nat \<Rightarrow> dca_state" where
  "dca_after df trading_fees initial_cap k =
     foldl (dca_step df trading_fees initial_cap) \<lparr>shares = 0, cash_spent = 0\<rparr> (take k df)"

subsection \<open>Metrics and the whole computation\<close>

text \<open>\<^verbatim>\<open>perf_algo = ((df['Strategy'].iloc[-1]/initial_cap)-1)*100\<close>, and the same for the
  other two columns.\<close>

definition perf :: "real list \<Rightarrow> real \<Rightarrow> error + real" where
  "perf curve initial_cap =
     (case iloc_last curve of Inl e \<Rightarrow> Inl e | Inr l \<Rightarrow> Inr (((l / initial_cap) - 1) * 100))"

record outcome =
  Strategy_col :: "real list"
  BuyHold_col :: "real list"
  DCA_col :: "real list"
  perf_algo :: real
  perf_bh :: real
  perf_dca :: real

text \<open>
  The body of the \<open>try\<close> block from the window frame on, in the script's order: the
  position and strategy columns, buy-and-hold (which reads \<open>iloc[0]\<close>), the DCA
  column, and the three metrics. An exception ends the block and is shown as a message.
\<close>

definition run :: "row list \<Rightarrow> real \<Rightarrow> real \<Rightarrow> error + outcome" where
  "run df trading_fees initial_cap =
     (let prices = map target df;
          S = Strategy prices (Position df) trading_fees initial_cap
      in case BuyHold prices initial_cap of
           Inl e \<Rightarrow> Inl e
         | Inr B \<Rightarrow>
             (let D = DCA df trading_fees initial_cap
              in case perf S initial_cap of
                   Inl e \<Rightarrow> Inl e
                 | Inr pa \<Rightarrow>
                     (case perf B initial_cap of
                        Inl e \<Rightarrow> Inl e
                      | Inr pb \<Rightarrow>
                          (case perf D initial_cap of
                             Inl e \<Rightarrow> Inl e
                           | Inr pd \<Rightarrow>
                               Inr \<lparr>Strategy_col = S, BuyHold_col = B, DCA_col = D,
                                    perf_algo = pa, perf_bh = pb, perf_dca = pd\<rparr>))))"

subsection \<open>The specification's wording, for comparison\<close>

text \<open>
  The specification's signal rule with a configurable threshold: the position is 1
  when the guide's future return is positive and the rolling correlation exceeds
  \<open>correlationThreshold\<close>, and 0 otherwise, an undefined input giving 0.
\<close>

definition spec_Position :: "real \<Rightarrow> real option \<Rightarrow> real option \<Rightarrow> int" where
  "spec_Position correlationThreshold g c =
     (case (g, c) of
        (Some gv, Some cv) \<Rightarrow> (if 0 < gv \<and> correlationThreshold < cv then 1 else 0)
      | _ \<Rightarrow> 0)"

text \<open>The specification's metric: the last value over the curve's own first value.\<close>

definition spec_totalReturnPct :: "real list \<Rightarrow> real" where
  "spec_totalReturnPct curve = (last curve / hd curve - 1) * 100"

subsection \<open>A small window for the examples\<close>

text \<open>
  Three trading days, two in January and one in February 2024. The signal inputs make
  the position column 1, 0, 0: the second row has no guide return and the third a
  correlation below 0.2.
\<close>

definition example_df :: "row list" where
  "example_df =
     [\<lparr>idx = Date 2024 1 2, target = 100, Guide_Return_Future = Some (1 / 10), Corr = Some (3 / 10)\<rparr>,
      \<lparr>idx = Date 2024 1 3, target = 110, Guide_Return_Future = None, Corr = Some (3 / 10)\<rparr>,
      \<lparr>idx = Date 2024 2 1, target = 121, Guide_Return_Future = Some (1 / 10), Corr = Some (1 / 10)\<rparr>]"

section \<open>Properties\<close>

subsection \<open>Column operations\<close>

lemma length_shift_s: "length (shift_s xs) = length xs"
  by (cases xs) (simp_all add: shift_s_def)

lemma nth_shift_s:
  "i < length xs \<Longrightarrow> shift_s xs ! i = (if i = 0 then None else xs ! (i - 1))"
  by (cases xs; cases i) (simp_all add: shift_s_def nth_butlast del: butlast.simps)

lemma length_Trade: "length (Trade pos) = length pos"
  by (simp add: Trade_def fillna_def abs_s_def diff_s_def length_shift_s)

lemma nth_Trade:
  "i < length pos \<Longrightarrow>
     Trade pos ! i = (if i = 0 then 0 else \<bar>real_of_int (pos ! i) - real_of_int (pos ! (i - 1))\<bar>)"
  by (simp add: Trade_def fillna_def abs_s_def diff_s_def length_shift_s nth_shift_s lift2_def)

lemma length_rets_of: "length (rets_of prices) = length prices"
  by (simp add: rets_of_def fillna_def pct_change_def length_shift_s)

lemma nth_rets_of:
  "i < length prices \<Longrightarrow>
     rets_of prices ! i = (if i = 0 then 0 else prices ! i / prices ! (i - 1) - 1)"
  by (simp add: rets_of_def fillna_def pct_change_def length_shift_s nth_shift_s lift2_def)

lemma filter_nth_count:
  "length (filter (\<lambda>i. Q (xs ! i)) [0..<length xs]) = length (filter Q xs)"
proof -
  have "filter Q xs = filter Q (map (\<lambda>i. xs ! i) [0..<length xs])"
    by (simp add: map_nth)
  also have "\<dots> = map (\<lambda>i. xs ! i) (filter (\<lambda>i. Q (xs ! i)) [0..<length xs])"
    by (simp add: filter_map comp_def)
  finally show ?thesis by simp
qed

subsection \<open>The strategy loop as a fold\<close>

text \<open>
  The loop appends one capital per index, so the path it returns is the list of the
  running capitals: entry \<open>i\<close> is the capital after \<open>i + 1\<close> passes.
\<close>

lemma strat_loop_eq:
  "strat_loop R P T f js c path =
     path @ map (\<lambda>k. foldl (\<lambda>c i. strat_step R P T f i c) c (take (Suc k) js)) [0..<length js]"
proof (induction js arbitrary: c path)
  case Nil
  show ?case by simp
next
  case (Cons j js)
  have "[0..<length (j # js)] = 0 # map Suc [0..<length js]"
    by (simp add: upt_conv_Cons map_Suc_upt del: upt_Suc)
  then show ?case
    by (simp add: Cons.IH Let_def comp_def)
qed

lemma length_strat_path: "length (strat_path n R P T f cap) = n"
  by (simp add: strat_path_def strat_loop_eq)

lemma nth_strat_path:
  "i < n \<Longrightarrow> strat_path n R P T f cap ! i = strat_after R P T f cap (Suc i)"
  by (simp add: strat_path_def strat_loop_eq strat_after_def del: upt_Suc)

lemma strat_after_0: "strat_after R P T f cap 0 = cap"
  by (simp add: strat_after_def)

lemma strat_after_Suc:
  "strat_after R P T f cap (Suc k) = strat_step R P T f k (strat_after R P T f cap k)"
  by (simp add: strat_after_def)

lemma nth_strat_path_step:
  assumes "i < n"
  shows "strat_path n R P T f cap ! i =
           (if i = 0 then cap
            else strat_path n R P T f cap ! (i - 1) * (if P ! (i - 1) = 1 then 1 + R ! i else 1))
           * (if T ! i = 1 then 1 - f else 1)"
proof (cases i)
  case 0
  then show ?thesis using assms
    by (simp add: nth_strat_path strat_after_Suc strat_after_0 strat_step_def)
next
  case (Suc k)
  then have "k < n" using assms by simp
  then show ?thesis using assms Suc
    by (simp add: nth_strat_path strat_after_Suc [of _ _ _ _ _ "Suc k"] strat_step_def Let_def)
qed

lemma last_strat_path:
  "0 < n \<Longrightarrow> last (strat_path n R P T f cap) = strat_after R P T f cap n"
proof -
  assume n: "0 < n"
  have ne: "strat_path n R P T f cap \<noteq> []"
    using n length_strat_path [of n R P T f cap] by auto
  have "last (strat_path n R P T f cap) = strat_path n R P T f cap ! (n - 1)"
    using ne by (simp add: last_conv_nth length_strat_path)
  also have "\<dots> = strat_after R P T f cap (Suc (n - 1))"
    using n by (intro nth_strat_path) simp
  finally show ?thesis using n by simp
qed

text \<open>
  Closed form of the running capital: the initial capital, times the growth factors of
  the days entered with a position, times one fee factor per flagged day.
\<close>

lemma strat_after_closed:
  "strat_after R P T f cap k =
     cap * prod_list (map (\<lambda>i. 1 + R ! i) (filter (\<lambda>i. P ! (i - 1) = 1) [1..<k]))
         * (1 - f) ^ length (filter (\<lambda>i. T ! i = 1) [0..<k])"
proof (induction k)
  case 0
  show ?case by (simp add: strat_after_0)
next
  case (Suc k)
  have step: "strat_after R P T f cap (Suc k) = strat_step R P T f k (strat_after R P T f cap k)"
    by (rule strat_after_Suc)
  have l0: "[0..<Suc k] = [0..<k] @ [k]"
    by simp
  show ?case
  proof (cases "k = 0")
    case True
    then show ?thesis by (simp add: strat_after_Suc strat_after_0 strat_step_def)
  next
    case False
    then have l1: "[1..<Suc k] = [1..<k] @ [k]" by simp
    show ?thesis
      unfolding step l0 l1 Suc.IH strat_step_def Let_def using False by simp
  qed
qed

text \<open>
  A higher fee never helps: with non-negative growth factors the running capital stays
  non-negative and is ordered against the fee rate.
\<close>

lemma strat_after_mono:
  assumes "\<forall>i. 0 < i \<and> i < k \<longrightarrow> 0 \<le> 1 + R ! i"
    and "0 \<le> cap" and "0 \<le> f1" and "f1 \<le> f2" and "f2 \<le> 1"
  shows "0 \<le> strat_after R P T f2 cap k \<and> strat_after R P T f2 cap k \<le> strat_after R P T f1 cap k"
  using assms(1)
proof (induction k)
  case 0
  show ?case using assms(2) by (simp add: strat_after_0)
next
  case (Suc k)
  define a where "a = strat_after R P T f1 cap k"
  define b where "b = strat_after R P T f2 cap k"
  define g where "g = (if 0 < k \<and> P ! (k - 1) = 1 then 1 + R ! k else 1)"
  have ih: "0 \<le> b" "b \<le> a" using Suc by (simp_all add: a_def b_def)
  have g: "0 \<le> g" using Suc.prems by (simp add: g_def)
  have bg: "0 \<le> b * g" "b * g \<le> a * g" using ih g by (simp_all add: mult_right_mono)
  have fe: "0 \<le> 1 - f2" "1 - f2 \<le> 1 - f1" using assms by simp_all
  have m: "b * g * (1 - f2) \<le> a * g * (1 - f1)"
  proof (rule mult_mono [OF bg(2) fe(2) _ fe(1)])
    show "0 \<le> a * g" using bg by linarith
  qed
  have n: "0 \<le> b * g * (1 - f2)" using bg fe by simp
  have sa: "strat_after R P T f1 cap (Suc k) = (if T ! k = 1 then a * g * (1 - f1) else a * g)"
    by (simp add: strat_after_Suc strat_step_def a_def g_def)
  have sb: "strat_after R P T f2 cap (Suc k) = (if T ! k = 1 then b * g * (1 - f2) else b * g)"
    by (simp add: strat_after_Suc strat_step_def b_def g_def)
  show ?case unfolding sa sb using bg m n by simp
qed

subsection \<open>C1: the order of return and fee within a day\<close>

text \<open>
  C1. The strategy column has one entry per day. Its day-0 entry is the initial
  capital exactly: the return branch is guarded by \<open>i > 0\<close>, and the trade column is
  0 at index 0 whatever the positions are, so neither a return nor a fee is applied
  there. On a day \<open>i > 0\<close> the capital of day \<open>i - 1\<close> is first multiplied by
  \<open>1 + dailyReturn(i)\<close> exactly when the position of day \<open>i - 1\<close> is 1, and the
  result by \<open>1 - feeRate\<close> exactly when the trade column flags day \<open>i\<close>.
\<close>

theorem strategy_days:
  assumes "i < length prices" and "length pos = length prices"
  shows "length (Strategy prices pos f cap) = length prices
         \<and> Strategy prices pos f cap ! 0 = cap
         \<and> (0 < i \<longrightarrow>
              Strategy prices pos f cap ! i =
                Strategy prices pos f cap ! (i - 1)
                  * (if pos ! (i - 1) = 1 then 1 + rets_of prices ! i else 1)
                  * (if Trade pos ! i = 1 then 1 - f else 1))"
proof -
  have n: "0 < length prices" using assms(1) by linarith
  have t0: "Trade pos ! 0 = 0" using n assms(2) by (simp add: nth_Trade)
  have 1: "length (Strategy prices pos f cap) = length prices"
    by (simp add: Strategy_def length_strat_path)
  have 2: "Strategy prices pos f cap ! 0 = cap"
    unfolding Strategy_def using n t0 by (simp add: nth_strat_path_step)
  have 3: "0 < i \<longrightarrow>
              Strategy prices pos f cap ! i =
                Strategy prices pos f cap ! (i - 1)
                  * (if pos ! (i - 1) = 1 then 1 + rets_of prices ! i else 1)
                  * (if Trade pos ! i = 1 then 1 - f else 1)"
    unfolding Strategy_def using nth_strat_path_step [OF assms(1)] by simp
  from 1 2 3 show ?thesis by blast
qed

theorem strategy_days_witness:
  "Strategy [100, 100, 110, 110] [0, 1, 1, 0] (1 / 10) 10000 ! 0 = 10000
   \<and> Strategy [100, 100, 110, 110] [0, 1, 1, 0] (1 / 10) 10000 ! 2
       = Strategy [100, 100, 110, 110] [0, 1, 1, 0] (1 / 10) 10000 ! 1 * (1 + 1 / 10)
   \<and> Strategy [100, 100, 110, 110] [0, 1, 1, 0] (1 / 10) 10000 ! 3
       = Strategy [100, 100, 110, 110] [0, 1, 1, 0] (1 / 10) 10000 ! 2 * (9 / 10)"
  using strategy_days [of 2 "[100, 100, 110, 110]" "[0, 1, 1, 0]" "1 / 10" 10000]
    strategy_days [of 3 "[100, 100, 110, 110]" "[0, 1, 1, 0]" "1 / 10" 10000]
  by (simp add: nth_Trade nth_rets_of)

subsection \<open>C4: the four-day scenario\<close>

text \<open>
  C4. Prices 100, 100, 110, 110, positions 0, 1, 1, 0, fee rate 0.1 and initial capital
  10000 give the strategy curve 10000, 9000, 9900, 8910; the final capital is 8910.
\<close>

theorem scenario_four_days:
  "Strategy [100, 100, 110, 110] [0, 1, 1, 0] (1 / 10) 10000 = [10000, 9000, 9900, 8910]
   \<and> last (Strategy [100, 100, 110, 110] [0, 1, 1, 0] (1 / 10) 10000) = 8910"
  by (simp add: Strategy_def strat_path_def strat_step_def Trade_def rets_of_def fillna_def
      abs_s_def diff_s_def pct_change_def shift_s_def lift2_def upt_rec)

subsection \<open>C5: two transitions cost two fees\<close>

text \<open>
  C5. When the trade column of a signal flags exactly two days, the final strategy
  capital is the initial capital, times the product of \<open>1 + dailyReturn(i)\<close> over the
  days \<open>i\<close> whose previous-day position is 1, times \<open>(1 - feeRate)\<^sup>2\<close>.
\<close>

theorem two_trades_final_capital:
  assumes "prices \<noteq> []" and "length pos = length prices"
    and "\<forall>p \<in> set prices. 0 < p"
    and "length (filter (\<lambda>t. t = 1) (Trade pos)) = 2"
  shows "last (Strategy prices pos f cap) =
           cap * prod_list (map (\<lambda>i. 1 + rets_of prices ! i)
                              (filter (\<lambda>i. pos ! (i - 1) = 1) [1..<length prices]))
               * (1 - f) ^ 2"
proof -
  have n: "0 < length prices" using assms(1) by simp
  have "length (filter (\<lambda>i. Trade pos ! i = 1) [0..<length prices]) = 2"
    using filter_nth_count [of "\<lambda>t. t = 1" "Trade pos"] assms(2,4) by (simp add: length_Trade)
  then show ?thesis
    unfolding Strategy_def last_strat_path [OF n] strat_after_closed by simp
qed

theorem two_trades_final_capital_witness:
  "last (Strategy [100, 100, 110, 110] [0, 1, 1, 0] (1 / 10) 10000) = 8910
   \<and> length (filter (\<lambda>t. t = 1) (Trade [0, 1, 1, 0])) = 2"
  using two_trades_final_capital [of "[100, 100, 110, 110]" "[0, 1, 1, 0]" "1 / 10" 10000]
  by (simp add: Strategy_def strat_path_def strat_step_def Trade_def rets_of_def fillna_def
      abs_s_def diff_s_def pct_change_def shift_s_def lift2_def upt_rec power2_eq_square)

subsection \<open>C7: the trade column\<close>

text \<open>
  C7. For a position column with values 0 and 1, the trade column is never 1 at index
  0, whatever the position there, and at an index \<open>i > 0\<close> it is 1 exactly when the
  position differs from the one the day before. So a position held on the first day is
  not flagged, and the strategy's day-0 capital carries no fee.
\<close>

theorem Trade_flags:
  assumes "set pos \<subseteq> {0, 1}" and "i < length pos" and "length prices = length pos"
  shows "(Trade pos ! i = 1) = (0 < i \<and> pos ! i \<noteq> pos ! (i - 1))
         \<and> Trade pos ! 0 = 0
         \<and> Strategy prices pos f cap ! 0 = cap"
proof -
  have a: "pos ! i \<in> {0, 1}" using assms(1,2) by (metis nth_mem subsetD)
  have b: "0 < i \<Longrightarrow> pos ! (i - 1) \<in> {0, 1}" using assms(1,2)
    by (metis less_imp_diff_less nth_mem subsetD)
  have 1: "(Trade pos ! i = 1) = (0 < i \<and> pos ! i \<noteq> pos ! (i - 1))"
    using a b assms(2) by (auto simp: nth_Trade)
  have lp: "0 < length pos" using assms(2) by linarith
  then have 0: "Trade pos ! 0 = 0" by (simp add: nth_Trade)
  have "Strategy prices pos f cap ! 0 = cap"
    unfolding Strategy_def using lp assms(3) 0
    by (simp add: nth_strat_path_step)
  with 0 1 show ?thesis by simp
qed

theorem Trade_flags_witness:
  "Trade [1, 1, 0] ! 0 \<noteq> 1 \<and> Trade [1, 1, 0] ! 2 = 1
   \<and> Strategy [100, 110, 121] [1, 1, 0] (1 / 10) 10000 ! 0 = 10000"
  using Trade_flags [of "[1, 1, 0]" 0 "[100, 110, 121]" "1 / 10" 10000]
    Trade_flags [of "[1, 1, 0]" 2 "[100, 110, 121]" "1 / 10" 10000]
  by simp

subsection \<open>C10: the strategy curve against the fee rate\<close>

text \<open>
  C10. For positive prices, any position and trade columns and a positive initial
  capital, every entry of the strategy path is non-increasing in the fee rate: for
  \<open>0 \<le> f1 \<le> f2 < 1\<close> the capital of each day under \<open>f2\<close> is at most the one under
  \<open>f1\<close>.
\<close>

theorem fee_monotone:
  assumes "\<forall>p \<in> set prices. 0 < p" and "0 < cap"
    and "0 \<le> f1" and "f1 \<le> f2" and "f2 < 1" and "i < length prices"
  shows "strat_path (length prices) (rets_of prices) pos trade_vals f2 cap ! i
         \<le> strat_path (length prices) (rets_of prices) pos trade_vals f1 cap ! i"
proof -
  have pos_ret: "\<forall>j. 0 < j \<and> j < Suc i \<longrightarrow> 0 \<le> 1 + rets_of prices ! j"
  proof (intro allI impI)
    fix j assume j: "0 < j \<and> j < Suc i"
    then have jl: "j < length prices" "j - 1 < length prices" using assms(6) by linarith+
    then have "0 < prices ! j" "0 < prices ! (j - 1)" using assms(1) by (simp_all only: nth_mem)
    then have "0 < prices ! j / prices ! (j - 1)" by simp
    then show "0 \<le> 1 + rets_of prices ! j" using j jl by (simp add: nth_rets_of)
  qed
  show ?thesis
    using strat_after_mono [OF pos_ret, of cap f1 f2 pos trade_vals] assms
    by (simp add: nth_strat_path)
qed

theorem fee_monotone_witness:
  "strat_path (length [100, 100, 110, 110 :: real]) (rets_of [100, 100, 110, 110])
       [0, 1, 1, 0] [0, 1, 0, 1] (2 / 10) 10000 ! 3
   \<le> strat_path (length [100, 100, 110, 110 :: real]) (rets_of [100, 100, 110, 110])
       [0, 1, 1, 0] [0, 1, 0, 1] (1 / 10) 10000 ! 3"
  using fee_monotone [of "[100, 100, 110, 110]" 10000 "1 / 10" "2 / 10" 3 "[0, 1, 1, 0]" "[0, 1, 0, 1]"]
  by simp

subsection \<open>The DCA loop as a fold\<close>

text \<open>
  The date read by \<open>index[0]\<close> exists for every date of the frame, so the loop never
  raises there; and with distinct index dates a row is the first of its month number
  exactly when no earlier row of the frame has that month number.
\<close>

lemma month_index0_defined:
  "r \<in> set df \<Longrightarrow> month_index0 df (month (idx r)) \<noteq> None"
  by (auto simp: month_index0_def find_None_iff)

lemma month_index0_first:
  assumes "distinct (map idx df)" and "i < length df"
  shows "(month_index0 df (month (idx (df ! i))) = Some (idx (df ! i)))
         = (\<forall>j<i. month (idx (df ! j)) \<noteq> month (idx (df ! i)))"
proof
  assume "month_index0 df (month (idx (df ! i))) = Some (idx (df ! i))"
  then obtain x where x: "find (\<lambda>r. month (idx r) = month (idx (df ! i))) df = Some x"
      and ix: "idx x = idx (df ! i)"
    by (auto simp: month_index0_def)
  from x obtain k where k: "k < length df" "x = df ! k"
      "\<forall>j<k. month (idx (df ! j)) \<noteq> month (idx (df ! i))"
    by (auto simp: find_Some_iff)
  have "k = i"
    using nth_eq_iff_index_eq [OF assms(1), of k i] k(1,2) ix assms(2) by simp
  then show "\<forall>j<i. month (idx (df ! j)) \<noteq> month (idx (df ! i))" using k(3) by simp
next
  assume a: "\<forall>j<i. month (idx (df ! j)) \<noteq> month (idx (df ! i))"
  have "find (\<lambda>r. month (idx r) = month (idx (df ! i))) df = Some (df ! i)"
    unfolding find_Some_iff using assms(2) a by blast
  then show "month_index0 df (month (idx (df ! i))) = Some (idx (df ! i))"
    by (simp add: month_index0_def)
qed

lemma dca_loop_eq:
  "dca_loop df f cap rs s col =
     col @ map (\<lambda>k. shares (foldl (dca_step df f cap) s (take (Suc k) rs)) * target (rs ! k)
                     + (cap - cash_spent (foldl (dca_step df f cap) s (take (Suc k) rs))))
               [0..<length rs]"
proof (induction rs arbitrary: s col)
  case Nil
  show ?case by simp
next
  case (Cons r rs)
  have "[0..<length (r # rs)] = 0 # map Suc [0..<length rs]"
    by (simp add: upt_conv_Cons map_Suc_upt del: upt_Suc)
  then show ?case
    by (simp add: Cons.IH Let_def comp_def)
qed

lemma length_DCA: "length (DCA df f cap) = length df"
  by (simp add: DCA_def dca_loop_eq)

lemma nth_DCA:
  "i < length df \<Longrightarrow>
     DCA df f cap ! i = shares (dca_after df f cap (Suc i)) * target (df ! i)
                        + (cap - cash_spent (dca_after df f cap (Suc i)))"
  by (simp add: DCA_def dca_loop_eq dca_after_def del: upt_Suc)

lemma dca_after_0: "dca_after df f cap 0 = \<lparr>shares = 0, cash_spent = 0\<rparr>"
  by (simp add: dca_after_def)

lemma dca_after_Suc:
  "i < length df \<Longrightarrow>
     dca_after df f cap (Suc i) = dca_step df f cap (dca_after df f cap i) (df ! i)"
  by (simp add: dca_after_def take_Suc_conv_app_nth)

lemma cash_spent_tranches:
  assumes "0 < cap" and "k \<le> length df"
  shows "\<exists>m::nat. m \<le> 12 \<and> cash_spent (dca_after df f cap k) = real m * (cap / 12)"
  using assms(2)
proof (induction k)
  case 0
  show ?case by (rule exI [of _ 0]) (simp add: dca_after_0)
next
  case (Suc k)
  then obtain m :: nat where m: "m \<le> 12"
      "cash_spent (dca_after df f cap k) = real m * (cap / 12)"
    by auto
  have step: "dca_after df f cap (Suc k) = dca_step df f cap (dca_after df f cap k) (df ! k)"
    using Suc.prems by (simp add: dca_after_Suc)
  show ?case
  proof (cases "dca_buys df cap (dca_after df f cap k) (df ! k)")
    case False
    then show ?thesis using m step by (auto simp: dca_step_def)
  next
    case True
    then have "real m * (cap / 12) < cap" using m(2) by (simp add: dca_buys_def)
    then have "real m * cap < 12 * cap" by simp
    then have "real m < 12" using assms(1) by simp
    then have "Suc m \<le> 12" by simp
    moreover have "cash_spent (dca_after df f cap (Suc k)) = real (Suc m) * (cap / 12)"
      using True m(2) step by (simp add: dca_step_def Let_def algebra_simps)
    ultimately show ?thesis by blast
  qed
qed

lemma cash_spent_le:
  assumes "0 < cap" and "k \<le> length df"
  shows "cash_spent (dca_after df f cap k) \<le> cap"
proof -
  obtain m :: nat where m: "m \<le> 12" "cash_spent (dca_after df f cap k) = real m * (cap / 12)"
    using cash_spent_tranches [OF assms] by blast
  have "real m * (cap / 12) \<le> 12 * (cap / 12)"
    using m(1) assms(1) by (intro mult_right_mono) simp_all
  then show ?thesis using m(2) by simp
qed

subsection \<open>The first day and the whole run\<close>

lemma length_Strategy: "length (Strategy prices pos f cap) = length prices"
  by (simp add: Strategy_def length_strat_path)

lemma length_Position: "length (Position df) = length df"
  by (simp add: Position_def)

lemma Strategy_day0:
  assumes "prices \<noteq> []" and "length pos = length prices"
  shows "Strategy prices pos f cap ! 0 = cap"
proof -
  have n: "0 < length prices" using assms(1) by simp
  then have "Trade pos ! 0 = 0" using assms(2) by (simp add: nth_Trade)
  then show ?thesis unfolding Strategy_def using n by (simp add: nth_strat_path_step)
qed

lemma DCA_day0:
  assumes "df \<noteq> []" and "target (hd df) \<noteq> 0" and "0 < cap"
  shows "DCA df f cap ! 0 = cap - cap / 12 * f"
proof -
  obtain r rs where df: "df = r # rs" using assms(1) by (cases df) auto
  have "month_index0 df (month (idx r)) = Some (idx r)"
    by (simp add: df month_index0_def)
  then have "dca_buys df cap \<lparr>shares = 0, cash_spent = 0\<rparr> r"
    using assms(3) by (simp add: dca_buys_def)
  then have "dca_after df f cap (Suc 0)
               = \<lparr>shares = (cap / 12 * (1 - f)) / target r, cash_spent = cap / 12\<rparr>"
    by (simp add: dca_after_def df dca_step_def)
  then have a: "DCA df f cap ! 0 = (cap / 12 * (1 - f)) / target r * target r + (cap - cap / 12)"
    using nth_DCA [of 0 df f cap] by (simp add: df)
  have b: "(cap / 12 * (1 - f)) / target r * target r = cap / 12 * (1 - f)"
    using assms(2) df by simp
  have "DCA df f cap ! 0 = cap / 12 * (1 - f) + (cap - cap / 12)"
    unfolding a b by (rule refl)
  then show ?thesis
    by (simp add: right_diff_distrib)
qed

lemma run_nonempty:
  assumes "df \<noteq> []"
  shows "run df f cap =
           Inr \<lparr>Strategy_col = Strategy (map target df) (Position df) f cap,
                BuyHold_col = map (\<lambda>p. (p / target (hd df)) * cap) (map target df),
                DCA_col = DCA df f cap,
                perf_algo = ((last (Strategy (map target df) (Position df) f cap) / cap) - 1) * 100,
                perf_bh = ((last (map (\<lambda>p. (p / target (hd df)) * cap) (map target df)) / cap) - 1) * 100,
                perf_dca = ((last (DCA df f cap) / cap) - 1) * 100\<rparr>"
proof -
  obtain r rs where df: "df = r # rs" using assms by (cases df) auto
  have s: "Strategy (map target df) (Position df) f cap \<noteq> []"
    using length_Strategy [of "map target df" "Position df" f cap] assms by auto
  have d: "DCA df f cap \<noteq> []"
    using length_DCA [of df f cap] assms by auto
  have b: "BuyHold (map target df) cap = Inr (map (\<lambda>p. (p / target (hd df)) * cap) (map target df))"
    by (simp add: BuyHold_def iloc_first_def df)
  show ?thesis
    unfolding run_def Let_def b using s d assms
    by (simp add: perf_def iloc_last_def)
qed

lemma run_empty: "run [] f cap = Inl IndexError"
  by (simp add: run_def BuyHold_def iloc_first_def)

subsection \<open>C2: the first entry of the three curves\<close>

text \<open>
  C2 as stated fails for the DCA curve: the first row is the first of its month, so
  the loop buys on day 0 and the fee of that purchase is already lost. With one row
  at price 100, fee rate 0.1 and initial capital 10000 the first DCA entry is
  29750/3 (about 9916.67), not 10000.
\<close>

theorem dca_first_entry_counterexample:
  "DCA [\<lparr>idx = Date 2024 1 2, target = 100, Guide_Return_Future = None, Corr = None\<rparr>] (1 / 10) 10000 ! 0
     = 29750 / 3
   \<and> DCA [\<lparr>idx = Date 2024 1 2, target = 100, Guide_Return_Future = None, Corr = None\<rparr>] (1 / 10) 10000 ! 0
     \<noteq> 10000"
  by (simp add: DCA_def dca_step_def dca_buys_def month_index0_def)

text \<open>
  C2, as the code has it. For a non-empty window of positive prices and a positive
  initial capital the run succeeds; the strategy and buy-and-hold curves start at the
  initial capital, and the DCA curve starts at
  \<open>initialCapital - (initialCapital / 12) * feeRate\<close>, which is the initial capital
  exactly when the fee rate is 0.
\<close>

theorem first_entries:
  assumes "df \<noteq> []" and "\<forall>r \<in> set df. 0 < target r" and "0 < cap"
  shows "\<exists>out. run df f cap = Inr out
           \<and> Strategy_col out ! 0 = cap
           \<and> BuyHold_col out ! 0 = cap
           \<and> DCA_col out ! 0 = cap - cap / 12 * f
           \<and> (DCA_col out ! 0 = cap) = (f = 0)"
proof -
  have t: "target (hd df) \<noteq> 0" using assms(1,2) by (cases df) auto
  have 1: "Strategy (map target df) (Position df) f cap ! 0 = cap"
    using assms(1) by (intro Strategy_day0) (simp_all add: length_Position)
  have 2: "map (\<lambda>p. (p / target (hd df)) * cap) (map target df) ! 0 = cap"
    using assms(1) t by (cases df) simp_all
  have 3: "DCA df f cap ! 0 = cap - cap / 12 * f"
    using assms(1) t assms(3) by (rule DCA_day0)
  have 4: "(DCA df f cap ! 0 = cap) = (f = 0)"
    using 3 assms(3) by simp
  show ?thesis
    unfolding run_nonempty [OF assms(1)] using 1 2 3 4 by simp
qed

theorem first_entries_witness:
  "\<exists>out. run example_df (1 / 10) 10000 = Inr out
      \<and> Strategy_col out ! 0 = 10000
      \<and> BuyHold_col out ! 0 = 10000
      \<and> DCA_col out ! 0 = 10000 - 10000 / 12 * (1 / 10)
      \<and> (DCA_col out ! 0 = 10000) = (1 / 10 = (0 :: real))"
  by (rule first_entries) (simp_all add: example_df_def)

subsection \<open>C3: the reported percentages\<close>

text \<open>
  C3 as stated fails for the DCA curve: the script divides the last value by the
  initial capital, not by the curve's first value. With one row at price 100, fee rate
  0.1 and initial capital 10000 the reported DCA return is -5/6 percent, while last
  over first minus one is 0.
\<close>

theorem dca_return_counterexample:
  "perf (DCA [\<lparr>idx = Date 2024 1 2, target = 100, Guide_Return_Future = None, Corr = None\<rparr>] (1 / 10) 10000) 10000
     = Inr (- (5 / 6))
   \<and> spec_totalReturnPct
       (DCA [\<lparr>idx = Date 2024 1 2, target = 100, Guide_Return_Future = None, Corr = None\<rparr>] (1 / 10) 10000)
     = 0"
  by (simp add: DCA_def dca_step_def dca_buys_def month_index0_def perf_def iloc_last_def
      spec_totalReturnPct_def)

text \<open>
  C3, as the code has it. Each reported percentage is
  \<open>(curve.last / initialCapital - 1) * 100\<close>. For the strategy and buy-and-hold
  curves, whose first value is the initial capital, this is the specification's
  \<open>(curve.last / curve.first - 1) * 100\<close>; for the DCA curve the two agree when the
  fee rate is 0.
\<close>

theorem reported_returns:
  assumes "df \<noteq> []" and "\<forall>r \<in> set df. 0 < target r" and "0 < cap"
  shows "\<exists>out. run df f cap = Inr out
           \<and> perf_algo out = (last (Strategy_col out) / cap - 1) * 100
           \<and> perf_bh out = (last (BuyHold_col out) / cap - 1) * 100
           \<and> perf_dca out = (last (DCA_col out) / cap - 1) * 100
           \<and> perf_algo out = spec_totalReturnPct (Strategy_col out)
           \<and> perf_bh out = spec_totalReturnPct (BuyHold_col out)
           \<and> (f = 0 \<longrightarrow> perf_dca out = spec_totalReturnPct (DCA_col out))"
proof -
  have t: "target (hd df) \<noteq> 0" using assms(1,2) by (cases df) auto
  have s: "Strategy (map target df) (Position df) f cap \<noteq> []"
    using length_Strategy [of "map target df" "Position df" f cap] assms(1) by auto
  have d: "DCA df f cap \<noteq> []"
    using length_DCA [of df f cap] assms(1) by auto
  have "Strategy (map target df) (Position df) f cap ! 0 = cap"
    using assms(1) by (intro Strategy_day0) (simp_all add: length_Position)
  then have 1: "hd (Strategy (map target df) (Position df) f cap) = cap"
    using s by (simp add: hd_conv_nth)
  have 2: "hd (map (\<lambda>p. (p / target (hd df)) * cap) (map target df)) = cap"
    using assms(1) t by (cases df) simp_all
  have "DCA df f cap ! 0 = cap - cap / 12 * f"
    using assms(1) t assms(3) by (rule DCA_day0)
  then have 3: "f = 0 \<Longrightarrow> hd (DCA df f cap) = cap"
    using d by (simp add: hd_conv_nth)
  show ?thesis
    unfolding run_nonempty [OF assms(1)] using 1 2 3
    by (simp add: spec_totalReturnPct_def)
qed

theorem reported_returns_witness:
  "\<exists>out. run example_df (1 / 10) 10000 = Inr out
      \<and> perf_algo out = (last (Strategy_col out) / 10000 - 1) * 100
      \<and> perf_bh out = (last (BuyHold_col out) / 10000 - 1) * 100
      \<and> perf_dca out = (last (DCA_col out) / 10000 - 1) * 100
      \<and> perf_algo out = spec_totalReturnPct (Strategy_col out)
      \<and> perf_bh out = spec_totalReturnPct (BuyHold_col out)
      \<and> (1 / 10 = (0 :: real) \<longrightarrow> perf_dca out = spec_totalReturnPct (DCA_col out))"
  by (rule reported_returns) (simp_all add: example_df_def)

subsection \<open>C6: the position rule\<close>

text \<open>
  C6 as stated fails on the threshold: the script compares the correlation with the
  literal 0.2 and reads no configured threshold. With a configured threshold of 0.5, a
  guide return of 0.1 and a correlation of 0.3, the specification's rule gives 0 and
  the script gives 1.
\<close>

theorem threshold_counterexample:
  "Position_of (Some (1 / 10)) (Some (3 / 10)) = 1
   \<and> spec_Position (1 / 2) (Some (1 / 10)) (Some (3 / 10)) = 0"
  by (simp add: Position_of_def spec_Position_def gt_s_def)

text \<open>
  C6, as the code has it. On every row of the window the position is 1 if the guide's
  future return is above 0 and the rolling correlation is above the fixed threshold
  0.2, and 0 otherwise; when either input is NaN the position is 0. The position
  column has one value per row, each 0 or 1.
\<close>

theorem Position_rule:
  assumes "i < length df"
  shows "length (Position df) = length df
         \<and> Position df ! i = spec_Position (2 / 10) (Guide_Return_Future (df ! i)) (Corr (df ! i))
         \<and> (Guide_Return_Future (df ! i) = None \<or> Corr (df ! i) = None \<longrightarrow> Position df ! i = 0)
         \<and> Position df ! i \<in> {0, 1}"
  using assms
  by (auto simp: Position_def Position_of_def spec_Position_def gt_s_def split: option.splits)

theorem Position_rule_witness:
  "Position example_df ! 0 = 1 \<and> Position example_df ! 1 = 0 \<and> Position example_df ! 2 = 0"
  using Position_rule [of 0 example_df] Position_rule [of 1 example_df]
    Position_rule [of 2 example_df]
  by (simp add: example_df_def spec_Position_def)

subsection \<open>C8: the DCA valuation\<close>

text \<open>
  C8. On every row the DCA capital is the shares held after that row times the row's
  price, plus the initial capital less the cash spent so far. The loop variables change
  on a row only when no earlier row of the window has the same month and the cash
  spent is still below the initial capital; then \<open>(monthlyBudget * (1 - feeRate)) /
  price\<close> shares are added and the cash spent grows by \<open>monthlyBudget =
  initialCapital / 12\<close>. The cash spent never exceeds the initial capital.
\<close>

theorem DCA_valuation:
  assumes "distinct (map idx df)" and "i < length df" and "0 < cap"
    and "\<forall>r \<in> set df. 0 < target r"
  shows "DCA df f cap ! i
           = shares (dca_after df f cap (Suc i)) * target (df ! i)
             + (cap - cash_spent (dca_after df f cap (Suc i)))
         \<and> (if (\<forall>j<i. month (idx (df ! j)) \<noteq> month (idx (df ! i)))
                \<and> cash_spent (dca_after df f cap i) < cap
            then shares (dca_after df f cap (Suc i))
                   = shares (dca_after df f cap i) + (cap / 12 * (1 - f)) / target (df ! i)
                 \<and> cash_spent (dca_after df f cap (Suc i))
                   = cash_spent (dca_after df f cap i) + cap / 12
            else dca_after df f cap (Suc i) = dca_after df f cap i)
         \<and> cash_spent (dca_after df f cap (Suc i)) \<le> cap"
proof -
  have buys: "dca_buys df cap (dca_after df f cap i) (df ! i)
                = ((\<forall>j<i. month (idx (df ! j)) \<noteq> month (idx (df ! i)))
                   \<and> cash_spent (dca_after df f cap i) < cap)"
    by (simp add: dca_buys_def month_index0_first [OF assms(1,2)])
  have step: "dca_after df f cap (Suc i) = dca_step df f cap (dca_after df f cap i) (df ! i)"
    using assms(2) by (rule dca_after_Suc)
  have 1: "DCA df f cap ! i
           = shares (dca_after df f cap (Suc i)) * target (df ! i)
             + (cap - cash_spent (dca_after df f cap (Suc i)))"
    using assms(2) by (rule nth_DCA)
  have 2: "if (\<forall>j<i. month (idx (df ! j)) \<noteq> month (idx (df ! i)))
                \<and> cash_spent (dca_after df f cap i) < cap
            then shares (dca_after df f cap (Suc i))
                   = shares (dca_after df f cap i) + (cap / 12 * (1 - f)) / target (df ! i)
                 \<and> cash_spent (dca_after df f cap (Suc i))
                   = cash_spent (dca_after df f cap i) + cap / 12
            else dca_after df f cap (Suc i) = dca_after df f cap i"
    unfolding step dca_step_def Let_def buys by auto
  have 3: "cash_spent (dca_after df f cap (Suc i)) \<le> cap"
    using assms(2,3) by (intro cash_spent_le) simp_all
  from 1 2 3 show ?thesis by blast
qed


theorem DCA_valuation_witness:
  "DCA example_df (1 / 10) 10000 ! 2 = 59945 / 6
   \<and> cash_spent (dca_after example_df (1 / 10) 10000 3) = 5000 / 3
   \<and> dca_after example_df (1 / 10) 10000 2 = dca_after example_df (1 / 10) 10000 1"
  using DCA_valuation [of example_df 2 10000 "1 / 10"]
    DCA_valuation [of example_df 1 10000 "1 / 10"]
  by (simp add: example_df_def dca_after_def dca_step_def dca_buys_def month_index0_def
      numeral_3_eq_3 numeral_2_eq_2)

end
